theory Spec2Isabelle
  imports Complex_Main "HOL-Library.Word"
begin

section \<open>The AI/ML API model provider of Casibase (model/aimlapi.go)\<close>

text \<open>
  A shallow embedding of \<^verbatim>\<open>AIMLAPIModelProvider\<close>: its constructor, \<^verbatim>\<open>calculatePrice\<close>,
  \<^verbatim>\<open>getClient\<close> and \<^verbatim>\<open>QueryText\<close>. Go's \<^verbatim>\<open>int\<close> is a 64-bit two's complement word
  (\<open>-\<close> wraps, comparisons are signed), \<^verbatim>\<open>float64\<close> and \<^verbatim>\<open>float32\<close> values are carried as
  reals (the file itself does no floating-point arithmetic: it only passes such values to
  helpers), a \<^verbatim>\<open>string\<close> is its list of bytes. Functions of the package and of the SDK
  that this file calls but does not define are the fields of the record \<open>env\<close>.
\<close>

subsection \<open>Values of the Go runtime and library\<close>

type_synonym go_int = "64 word"

datatype error = EOF | New string

datatype panic_value = PanicError error | IndexOutOfRange

datatype fmt_arg = ArgStr string | ArgInt int

text \<open>\<^verbatim>\<open>strconv\<close>'s decimal rendering, which the verb \<^verbatim>\<open>%d\<close> uses.\<close>

function FormatNat :: "nat \<Rightarrow> string" where
  "FormatNat n =
     (if n < 10 then [''0123456789'' ! n]
      else FormatNat (n div 10) @ [''0123456789'' ! (n mod 10)])"
  by pat_completeness auto
termination
  by (relation "measure id") auto

definition FormatInt :: "int \<Rightarrow> string" where
  "FormatInt i = (if i < 0 then CHR ''-'' # FormatNat (nat (- i)) else FormatNat (nat i))"

text \<open>
  \<^verbatim>\<open>fmt.Sprintf\<close> for the two verbs of this file: \<^verbatim>\<open>%s\<close> with a string operand copies
  its bytes, \<^verbatim>\<open>%d\<close> with an integer operand writes it in decimal. Every other byte of
  the format is copied.
\<close>

fun Sprintf :: "string \<Rightarrow> fmt_arg list \<Rightarrow> string" where
  "Sprintf [] as = []"
| "Sprintf [c] as = [c]"
| "Sprintf (c # v # f) as =
     (if c = CHR ''%'' \<and> v = CHR ''s'' then
        (case as of
           ArgStr s # as' \<Rightarrow> s @ Sprintf f as'
         | _ \<Rightarrow> c # Sprintf (v # f) as)
      else if c = CHR ''%'' \<and> v = CHR ''d'' then
        (case as of
           ArgInt i # as' \<Rightarrow> FormatInt i @ Sprintf f as'
         | _ \<Rightarrow> c # Sprintf (v # f) as)
      else c # Sprintf (v # f) as)"

definition Errorf :: "string \<Rightarrow> fmt_arg list \<Rightarrow> error" where
  "Errorf format as = New (Sprintf format as)"

text \<open>\<^verbatim>\<open>strings.HasPrefix\<close>, and \<^verbatim>\<open>strings.Count\<close> for a separator of one byte.\<close>

definition HasPrefix :: "string \<Rightarrow> string \<Rightarrow> bool" where
  "HasPrefix s pre = (take (length pre) s = pre)"

definition Count :: "string \<Rightarrow> char \<Rightarrow> nat" where
  "Count s sep = length (filter (\<lambda>c. c = sep) s)"

subsection \<open>The sink\<close>

text \<open>
  An \<^verbatim>\<open>io.Writer\<close> is known by the calls it has received. \<open>flusher\<close> says whether its
  dynamic type implements \<^verbatim>\<open>http.Flusher\<close>; \<open>write_err\<close> is the error its \<^verbatim>\<open>Write\<close>
  returns, given the calls received before and the bytes offered.
\<close>

datatype sink_call = Write string | Flush

record writer =
  flusher :: bool
  write_err :: "sink_call list \<Rightarrow> string \<Rightarrow> error option"
  calls :: "sink_call list"

text \<open>\<^verbatim>\<open>fmt.Fprintf\<close> formats into a buffer and hands it to the writer in one \<^verbatim>\<open>Write\<close>.\<close>

definition Fprintf :: "writer \<Rightarrow> string \<Rightarrow> fmt_arg list \<Rightarrow> error option \<times> writer" where
  "Fprintf w format as =
     (let bytes = Sprintf format as
      in (write_err w (calls w) bytes, w\<lparr>calls := calls w @ [Write bytes]\<rparr>))"

definition Flush_call :: "writer \<Rightarrow> writer" where
  "Flush_call w = w\<lparr>calls := calls w @ [Flush]\<rparr>"

subsection \<open>Types of the package and of the SDK\<close>

record AIMLAPIModelProvider =
  subType :: string
  secretKey :: string
  siteName :: string
  siteUrl :: string
  temperature :: "real option"
  topP :: "real option"

record ModelResult =
  PromptTokenCount :: go_int
  ResponseTokenCount :: go_int
  TotalTokenCount :: go_int
  TotalPrice :: real
  Currency :: string

datatype http_client = DefaultHttpClient | ProxyHttpClient

record ClientConfig =
  HTTPClient :: http_client

record Client =
  config :: ClientConfig

datatype role = ChatMessageRoleSystem | ChatMessageRoleUser | ChatMessageRoleAssistant

record ChatCompletionMessage =
  Role :: role
  Content :: string

record ChatCompletionRequest =
  Model :: string
  Messages :: "ChatCompletionMessage list"
  Stream :: bool
  Temperature :: "real option"
  TopP :: "real option"
  MaxTokens :: go_int

record ChatCompletionChoice =
  Message :: ChatCompletionMessage

record ChatCompletionResponse =
  Choices :: "ChatCompletionChoice list"

text \<open>
  A response stream is the sequence of completions that \<^verbatim>\<open>Recv\<close> returns before its first
  error, and that error (\<open>EOF\<close> at a regular end).
\<close>

record ChatCompletionStream =
  completions :: "ChatCompletionResponse list"
  ending :: error

text \<open>What this file calls and does not define.\<close>

record env =
  DefaultConfig :: "string \<Rightarrow> string \<Rightarrow> string \<Rightarrow> error + ClientConfig"
  CreateChatCompletionStream :: "Client \<Rightarrow> ChatCompletionRequest \<Rightarrow> error + ChatCompletionStream"
  GetTokenSize :: "string \<Rightarrow> string \<Rightarrow> error + go_int"
  getContextLength :: "string \<Rightarrow> go_int"
  getDefaultModelResult :: "string \<Rightarrow> string \<Rightarrow> string \<Rightarrow> error + ModelResult"
  getPrice :: "go_int \<Rightarrow> real \<Rightarrow> real"
  AddPrices :: "real \<Rightarrow> real \<Rightarrow> real"

text \<open>The calls made on the chat client and on the stream it returns.\<close>

datatype client_call = Create ChatCompletionRequest | Close

datatype outcome = Panic panic_value | Fail error | Success ModelResult

subsection \<open>The provider\<close>

definition NewAIMLAPIModelProvider :: "string \<Rightarrow> string \<Rightarrow> real \<Rightarrow> real \<Rightarrow> AIMLAPIModelProvider" where
  "NewAIMLAPIModelProvider subType' secretKey' temperature' topP' =
     \<lparr>subType = subType', secretKey = secretKey', siteName = ''Casibase'',
      siteUrl = ''https://casibase.org'', temperature = Some temperature',
      topP = Some topP'\<rparr>"

definition priceTable :: "string \<rightharpoonup> real list" where
  "priceTable = map_of
     [(''openai/gpt-4o'', [0.005, 0.015]),
      (''gpt-4o-2024-05-13'', [0.005, 0.015]),
      (''gpt-4o-mini'', [0.003, 0.006]),
      (''gpt-3.5-turbo'', [0.001, 0.002]),
      (''claude-3-5-sonnet-20240620'', [0.003, 0.015]),
      (''claude-3-haiku-20240307'', [0.0008, 0.0024]),
      (''google/gemini-2.5-pro'', [0.0025, 0.0075]),
      (''google/gemma-3-4b-it'', [0.0004, 0.0008]),
      (''meta-llama/Meta-Llama-3.1-8B-Instruct-Turbo'', [0.0002, 0.0006]),
      (''meta-llama/Llama-3-8b-chat-hf'', [0.0002, 0.0006]),
      (''deepseek-chat'', [0.0006, 0.0012]),
      (''deepseek-reasoner'', [0.0015, 0.0030])]"

text \<open>\<^verbatim>\<open>calculatePrice\<close> returns its error (always \<^verbatim>\<open>nil\<close>) and the updated record.\<close>

definition calculatePrice :: "env \<Rightarrow> AIMLAPIModelProvider \<Rightarrow> ModelResult \<Rightarrow> error option \<times> ModelResult" where
  "calculatePrice env p modelResult =
     (let (inputPricePerThousandTokens, outputPricePerThousandTokens) =
            (case priceTable (subType p) of
               Some priceItem \<Rightarrow> (priceItem ! 0, priceItem ! 1)
             | None \<Rightarrow> (0, 0));
          inputPrice = getPrice env (PromptTokenCount modelResult) inputPricePerThousandTokens;
          outputPrice = getPrice env (ResponseTokenCount modelResult) outputPricePerThousandTokens
      in (None, modelResult\<lparr>TotalPrice := AddPrices env inputPrice outputPrice,
                             Currency := ''USD''\<rparr>))"

definition NewClientWithConfig :: "ClientConfig \<Rightarrow> Client" where
  "NewClientWithConfig cfg = \<lparr>config = cfg\<rparr>"

definition getClient :: "env \<Rightarrow> AIMLAPIModelProvider \<Rightarrow> panic_value + Client" where
  "getClient env p =
     (case DefaultConfig env (secretKey p) (siteName p) (siteUrl p) of
        Inl err \<Rightarrow> Inl (PanicError err)
      | Inr cfg \<Rightarrow> Inr (NewClientWithConfig (cfg\<lparr>HTTPClient := ProxyHttpClient\<rparr>)))"

text \<open>
  The receive loop of \<^verbatim>\<open>QueryText\<close>, over the completions still to come: the sink, the flag
  \<^verbatim>\<open>isLeadingReturn\<close> and the contents of \<^verbatim>\<open>responseStringBuilder\<close> are its state. It ends
  with the accumulated answer (\<open>Inr\<close>) or with the way the call ends early (\<open>Inl\<close>):
  an error of \<^verbatim>\<open>Recv\<close> other than \<^verbatim>\<open>io.EOF\<close>, an error of the write, or the panic of
  \<^verbatim>\<open>Choices[0]\<close> on a completion without choices. The first branch of the \<open>if\<close> is the
  \<^verbatim>\<open>continue\<close> of the source; \<open>isLeadingReturn'\<close> is the flag after the source's
  \<^verbatim>\<open>isLeadingReturn = false\<close>, which runs only for a non-empty fragment.
\<close>

fun relay :: "writer \<Rightarrow> bool \<Rightarrow> string \<Rightarrow> ChatCompletionResponse list \<Rightarrow> error
    \<Rightarrow> (outcome + string) \<times> writer" where
  "relay w isLeadingReturn response [] streamErr =
     (if streamErr = EOF then (Inr response, w) else (Inl (Fail streamErr), w))"
| "relay w isLeadingReturn response (completion # rest) streamErr =
     (case Choices completion of
        [] \<Rightarrow> (Inl (Panic IndexOutOfRange), w)
      | choice # _ \<Rightarrow>
          (let data = Content (Message choice)
           in if isLeadingReturn \<and> length data \<noteq> 0 \<and> Count data CHR ''\<newline>'' = length data
              then relay w isLeadingReturn response rest streamErr
              else
                (let isLeadingReturn' =
                       (if isLeadingReturn \<and> length data \<noteq> 0 then False else isLeadingReturn)
                 in case Fprintf w ''event: message\<newline>data: %s\<newline>\<newline>'' [ArgStr data] of
                      (Some err, w') \<Rightarrow> (Inl (Fail err), w')
                    | (None, w') \<Rightarrow>
                        relay (Flush_call w') isLeadingReturn' (response @ data) rest streamErr)))"

text \<open>
  \<^verbatim>\<open>QueryText\<close>. The types of \<^verbatim>\<open>history\<close>, \<^verbatim>\<open>knowledgeMessages\<close> and \<^verbatim>\<open>agentInfo\<close> are declared
  elsewhere in the package and are type parameters here. The result is the way the call
  ends (a panic, the returned error, or the returned \<^verbatim>\<open>ModelResult\<close>), the sink after the
  call, and the calls made on the client and on its stream, in order; the deferred
  \<^verbatim>\<open>respStream.Close()\<close> runs on every exit once the stream is open.
\<close>

definition QueryText :: "env \<Rightarrow> AIMLAPIModelProvider \<Rightarrow> string \<Rightarrow> writer \<Rightarrow> 'h \<Rightarrow> string \<Rightarrow> 'k \<Rightarrow> 'a
    \<Rightarrow> outcome \<times> writer \<times> client_call list" where
  "QueryText env p question writer history prompt knowledgeMessages agentInfo =
     (case getClient env p of
        Inl pv \<Rightarrow> (Panic pv, writer, [])
      | Inr client \<Rightarrow>
          if \<not> flusher writer
          then (Fail (Errorf ''writer does not implement http.Flusher'' []), writer, [])
          else
            (let model = (if subType p = '''' then ''openai/gpt-4o'' else subType p)
             in case GetTokenSize env model question of
                  Inl err \<Rightarrow> (Fail err, writer, [])
                | Inr tokenCount \<Rightarrow>
                    (let contextLength = getContextLength env (subType p)
                     in if HasPrefix question ''$CasibaseDryRun$''
                        then
                          (case getDefaultModelResult env model question '''' of
                             Inl err \<Rightarrow> (Fail (Errorf ''cannot calculate tokens'' []), writer, [])
                           | Inr modelResult \<Rightarrow>
                               if TotalTokenCount modelResult <s contextLength
                               then (Success modelResult, writer, [])
                               else (Fail (Errorf ''exceeds max tokens'' []), writer, []))
                        else
                          (let maxTokens = contextLength - tokenCount
                           in if maxTokens <s 0
                              then (Fail (Errorf ''Token count [%d] exceeds model [%s] max context [%d]''
                                            [ArgInt (sint tokenCount), ArgStr model,
                                             ArgInt (sint contextLength)]),
                                    writer, [])
                              else
                                (let request =
                                       \<lparr>Model = subType p,
                                        Messages =
                                          [\<lparr>Role = ChatMessageRoleSystem,
                                            Content = ''You are a helpful assistant.''\<rparr>,
                                           \<lparr>Role = ChatMessageRoleUser, Content = question\<rparr>],
                                        Stream = False,
                                        Temperature = temperature p,
                                        TopP = topP p,
                                        MaxTokens = maxTokens\<rparr>
                                 in case CreateChatCompletionStream env client request of
                                      Inl err \<Rightarrow> (Fail err, writer, [Create request])
                                    | Inr respStream \<Rightarrow>
                                        (case relay writer True '''' (completions respStream)
                                                (ending respStream) of
                                           (Inl early, w') \<Rightarrow> (early, w', [Create request, Close])
                                         | (Inr response, w') \<Rightarrow>
                                             (case getDefaultModelResult env (subType p) question
                                                     response of
                                                Inl err \<Rightarrow> (Fail err, w', [Create request, Close])
                                              | Inr modelResult \<Rightarrow>
                                                  (case calculatePrice env p modelResult of
                                                     (Some err, modelResult') \<Rightarrow>
                                                       (Fail err, w', [Create request, Close])
                                                   | (None, modelResult') \<Rightarrow>
                                                       (Success modelResult', w',
                                                        [Create request, Close])))))))))"

section \<open>What the specification says of the helpers that are not in this file\<close>

text \<open>
  Modelled from the spec: \<^verbatim>\<open>getPrice\<close>, the per-component price helper of the package, is
  not in model/aimlapi.go. The specification gives the cost of a component as
  \<^verbatim>\<open>tokenCount/1000 * price\<close>; the division is that of the rationals, no rounding of
  \<^verbatim>\<open>float64\<close> is modelled.
\<close>

definition getPrice_spec :: "go_int \<Rightarrow> real \<Rightarrow> real" where
  "getPrice_spec tokenCount pricePerThousandTokens =
     real_of_int (sint tokenCount) / 1000 * pricePerThousandTokens"

text \<open>
  Modelled from the spec: \<^verbatim>\<open>AddPrices\<close>, the price-summation helper of the package, is not
  in model/aimlapi.go. The specification has the two component prices summed exactly.
\<close>

definition AddPrices_spec :: "real \<Rightarrow> real \<Rightarrow> real" where
  "AddPrices_spec price1 price2 = price1 + price2"

text \<open>
  Modelled from the spec: \<^verbatim>\<open>getDefaultModelResult\<close>, the default-result constructor of the
  package, is not in model/aimlapi.go. By the specification, for an empty answer it
  builds a usage record from the prompt side only: the prompt count is the token count
  of the question, the response count is 0, and the total is their sum.
\<close>

definition prompt_only_result :: "go_int \<Rightarrow> ModelResult \<Rightarrow> bool" where
  "prompt_only_result promptTokenCount modelResult =
     (PromptTokenCount modelResult = promptTokenCount \<and>
      ResponseTokenCount modelResult = 0 \<and>
      TotalTokenCount modelResult
        = PromptTokenCount modelResult + ResponseTokenCount modelResult)"

section \<open>Vocabulary of the properties\<close>

text \<open>The server-push event that carries a fragment, and the calls that push a list of
  fragments: one write and one flush each.\<close>

definition event_bytes :: "string \<Rightarrow> string" where
  "event_bytes fragment = ''event: message\<newline>data: '' @ fragment @ ''\<newline>\<newline>''"

definition pushed :: "string list \<Rightarrow> sink_call list" where
  "pushed fragments = concat (map (\<lambda>d. [Write (event_bytes d), Flush]) fragments)"

text \<open>A fragment of the leading run: not empty, and nothing but newlines.\<close>

definition newlines_only :: "string \<Rightarrow> bool" where
  "newlines_only d = (d \<noteq> [] \<and> Count d CHR ''\<newline>'' = length d)"

text \<open>A fragment without a byte other than a newline, the empty one included.\<close>

definition blank :: "string \<Rightarrow> bool" where
  "blank d = (Count d CHR ''\<newline>'' = length d)"

text \<open>A sink whose \<^verbatim>\<open>Write\<close> never fails.\<close>

definition accepting :: "writer \<Rightarrow> bool" where
  "accepting w = (\<forall>received bytes. write_err w received bytes = None)"

text \<open>The model that \<^verbatim>\<open>QueryText\<close> resolves from the configured one.\<close>

definition resolved_model :: "AIMLAPIModelProvider \<Rightarrow> string" where
  "resolved_model p = (if subType p = '''' then ''openai/gpt-4o'' else subType p)"

text \<open>The request of a live call, for a bound on the output tokens.\<close>

definition live_request :: "AIMLAPIModelProvider \<Rightarrow> string \<Rightarrow> go_int \<Rightarrow> ChatCompletionRequest" where
  "live_request p question maxTokens =
     \<lparr>Model = subType p,
      Messages =
        [\<lparr>Role = ChatMessageRoleSystem, Content = ''You are a helpful assistant.''\<rparr>,
         \<lparr>Role = ChatMessageRoleUser, Content = question\<rparr>],
      Stream = False,
      Temperature = temperature p,
      TopP = topP p,
      MaxTokens = maxTokens\<rparr>"

section \<open>Concrete inputs\<close>

text \<open>A completion that carries one fragment.\<close>

definition chunk :: "string \<Rightarrow> ChatCompletionResponse" where
  "chunk d = \<lparr>Choices = [\<lparr>Message = \<lparr>Role = ChatMessageRoleAssistant, Content = d\<rparr>\<rparr>]\<rparr>"

text \<open>A sink that flushes and accepts every write, and a plain buffer that cannot flush.\<close>

definition sink0 :: writer where
  "sink0 = \<lparr>flusher = True, write_err = (\<lambda>received bytes. None), calls = []\<rparr>"

definition buffer0 :: writer where
  "buffer0 = \<lparr>flusher = False, write_err = (\<lambda>received bytes. None), calls = []\<rparr>"

text \<open>
  An environment for examples: the configuration is built, every request is answered with
  the given stream, a text has as many tokens as bytes, the context windows are given, and
  the price helpers are those of the specification.
\<close>

definition test_env :: "(string \<Rightarrow> go_int) \<Rightarrow> ChatCompletionStream \<Rightarrow> env" where
  "test_env contextLengths stream =
     \<lparr>DefaultConfig = (\<lambda>key name url. Inr \<lparr>HTTPClient = DefaultHttpClient\<rparr>),
      CreateChatCompletionStream = (\<lambda>client request. Inr stream),
      GetTokenSize = (\<lambda>model text. Inr (word_of_nat (length text))),
      getContextLength = contextLengths,
      getDefaultModelResult = (\<lambda>model question answer.
        Inr \<lparr>PromptTokenCount = word_of_nat (length question),
             ResponseTokenCount = word_of_nat (length answer),
             TotalTokenCount = word_of_nat (length question) + word_of_nat (length answer),
             TotalPrice = 0, Currency = ''''\<rparr>),
      getPrice = getPrice_spec,
      AddPrices = AddPrices_spec\<rparr>"

text \<open>A provider as the constructor builds it.\<close>

definition demo_provider :: "string \<Rightarrow> AIMLAPIModelProvider" where
  "demo_provider model = NewAIMLAPIModelProvider model ''secret'' 0.7 1"

section \<open>Properties\<close>

subsection \<open>Formatting and arithmetic\<close>

lemma priceTable_entry: "priceTable model = Some priceItem \<Longrightarrow> length priceItem = 2"
  by (auto simp add: priceTable_def split: if_splits)

lemma sint_diff_nonneg:
  fixes a b :: go_int
  assumes "0 \<le> sint a" and "0 \<le> sint b"
  shows "sint (a - b) = sint a - sint b"
proof -
  have "sint a < 2 ^ 63" "sint b < 2 ^ 63"
    using sint_lt [of a] sint_lt [of b] by simp_all
  then have "- (2 ^ 63) \<le> sint a - sint b" "sint a - sint b < 2 ^ 63"
    using assms by linarith+
  then show ?thesis
    by (simp add: sint_word_ariths signed_take_bit_int_eq_self)
qed

subsection \<open>The receive loop, step by step\<close>

lemma Sprintf_event:
  "Sprintf ''event: message\<newline>data: %s\<newline>\<newline>'' [ArgStr d] = event_bytes d"
  by (simp add: event_bytes_def)

lemma relay_skip:
  "list_all newlines_only ns \<Longrightarrow>
   relay w True acc (map chunk ns @ cs) e = relay w True acc cs e"
  by (induction ns) (simp_all add: chunk_def newlines_only_def)

lemma accepting_calls [simp]: "accepting (w\<lparr>calls := c\<rparr>) = accepting w"
  by (simp add: accepting_def)

lemma relay_forward_one:
  assumes "accepting w" and "\<not> (lead \<and> newlines_only d)"
  shows "relay w lead acc (chunk d # cs) e
     = relay (w\<lparr>calls := calls w @ pushed [d]\<rparr>) (lead \<and> d = []) (acc @ d) cs e"
  using assms
  by (cases lead)
     (auto simp add: chunk_def Fprintf_def Flush_call_def Sprintf_event accepting_def
        newlines_only_def pushed_def simp del: Sprintf.simps)

lemma relay_forward:
  "accepting w \<Longrightarrow>
   relay w False acc (map chunk ds @ cs) e
     = relay (w\<lparr>calls := calls w @ pushed ds\<rparr>) False (acc @ concat ds) cs e"
proof (induction ds arbitrary: w acc)
  case Nil
  then show ?case by (simp add: pushed_def)
next
  case (Cons d ds)
  let ?w = "w\<lparr>calls := calls w @ pushed [d]\<rparr>"
  have "relay w False acc (map chunk (d # ds) @ cs) e
          = relay ?w False (acc @ d) (map chunk ds @ cs) e"
    using Cons.prems by (simp add: relay_forward_one del: relay.simps)
  also have "\<dots> = relay (?w\<lparr>calls := calls ?w @ pushed ds\<rparr>) False ((acc @ d) @ concat ds) cs e"
    using Cons.prems by (intro Cons.IH) simp
  finally show ?case by (simp add: pushed_def)
qed

lemma not_newlines_only: "Count d CHR ''\<newline>'' \<noteq> length d \<Longrightarrow> \<not> newlines_only d \<and> d \<noteq> []"
  by (auto simp add: newlines_only_def Count_def)

lemma relay_blank_prefix:
  "accepting w \<Longrightarrow> list_all blank pre \<Longrightarrow>
   relay w True acc (map chunk pre @ cs) e
     = relay (w\<lparr>calls := calls w @ pushed (filter (\<lambda>f. f = []) pre)\<rparr>) True acc cs e"
proof (induction pre arbitrary: w)
  case Nil
  then show ?case by (simp add: pushed_def)
next
  case (Cons f pre)
  show ?case
  proof (cases "f = []")
    case True
    let ?w = "w\<lparr>calls := calls w @ pushed ['''']\<rparr>"
    have "relay w True acc (map chunk (f # pre) @ cs) e = relay ?w True acc (map chunk pre @ cs) e"
      using Cons.prems(1) True
      by (simp add: relay_forward_one newlines_only_def del: relay.simps)
    also have "\<dots> = relay (?w\<lparr>calls := calls ?w @ pushed (filter (\<lambda>f. f = []) pre)\<rparr>) True acc cs e"
      using Cons.prems by (intro Cons.IH) simp_all
    finally show ?thesis using True by (simp add: pushed_def)
  next
    case False
    then have "newlines_only f" using Cons.prems(2) by (simp add: newlines_only_def blank_def)
    then have "relay w True acc (map chunk (f # pre) @ cs) e = relay w True acc (map chunk pre @ cs) e"
      using relay_skip [of "[f]" w acc "map chunk pre @ cs" e] by simp
    also have "\<dots> = relay (w\<lparr>calls := calls w @ pushed (filter (\<lambda>f. f = []) pre)\<rparr>) True acc cs e"
      using Cons.prems by (intro Cons.IH) simp_all
    finally show ?thesis using False by simp
  qed
qed

lemma relay_Cons:
  assumes "Choices c = choice # others" and "d = Content (Message choice)"
  shows "relay w lead acc (c # cs) e =
     (if lead \<and> newlines_only d then relay w lead acc cs e
      else case write_err w (calls w) (event_bytes d) of
             Some err \<Rightarrow> (Inl (Fail err), w\<lparr>calls := calls w @ [Write (event_bytes d)]\<rparr>)
           | None \<Rightarrow>
               relay (w\<lparr>calls := calls w @ pushed [d]\<rparr>) (lead \<and> d = []) (acc @ d) cs e)"
  using assms
  by (auto simp add: Let_def newlines_only_def Fprintf_def Flush_call_def Sprintf_event
        pushed_def split: option.splits simp del: Sprintf.simps)

lemma calls_of_relay:
  "\<exists>ds tail.
     calls (snd (relay w lead acc cs e)) = calls w @ pushed ds @ tail \<and>
     (case fst (relay w lead acc cs e) of
        Inr response \<Rightarrow> response = acc @ concat ds \<and> tail = []
      | Inl early \<Rightarrow>
          tail = [] \<or> (\<exists>d err. tail = [Write (event_bytes d)] \<and> early = Fail err))"
proof (induction cs arbitrary: w lead acc)
  case Nil
  show ?case
    by (intro exI [of _ "[]"]) (simp add: pushed_def)
next
  case (Cons c cs)
  show ?case
  proof (cases "Choices c")
    case Nil
    then show ?thesis
      by (intro exI [of _ "[]"]) (simp add: pushed_def)
  next
    case choices: (Cons choice others)
    define d where "d = Content (Message choice)"
    note step = relay_Cons [OF choices d_def, of w lead acc cs e]
    show ?thesis
    proof (cases "lead \<and> newlines_only d")
      case True
      have "relay w lead acc (c # cs) e = relay w lead acc cs e"
        unfolding step using True by auto
      then show ?thesis
        using Cons.IH [of w lead acc] by (simp only:)
    next
      case forward: False
      show ?thesis
      proof (cases "write_err w (calls w) (event_bytes d)")
        case (Some err)
        have failed: "relay w lead acc (c # cs) e
            = (Inl (Fail err), w\<lparr>calls := calls w @ [Write (event_bytes d)]\<rparr>)"
          unfolding step using forward Some by auto
        show ?thesis
          unfolding failed
          by (rule exI [of _ "[]"], rule exI [of _ "[Write (event_bytes d)]"])
             (auto simp add: pushed_def)
      next
        case None
        let ?w = "w\<lparr>calls := calls w @ pushed [d]\<rparr>"
        from Cons.IH [of ?w "lead \<and> d = []" "acc @ d"] obtain ds tail where
          c: "calls (snd (relay ?w (lead \<and> d = []) (acc @ d) cs e)) = calls ?w @ pushed ds @ tail"
          and r: "case fst (relay ?w (lead \<and> d = []) (acc @ d) cs e) of
                Inr response \<Rightarrow> response = (acc @ d) @ concat ds \<and> tail = []
              | Inl early \<Rightarrow>
                  tail = [] \<or> (\<exists>d err. tail = [Write (event_bytes d)] \<and> early = Fail err)"
          by blast
        have eq: "relay w lead acc (c # cs) e = relay ?w (lead \<and> d = []) (acc @ d) cs e"
          unfolding step using forward None by auto
        have "calls (snd (relay ?w (lead \<and> d = []) (acc @ d) cs e))
                = calls w @ pushed (d # ds) @ tail"
          using c by (simp add: pushed_def)
        moreover have "case fst (relay ?w (lead \<and> d = []) (acc @ d) cs e) of
                Inr response \<Rightarrow> response = acc @ concat (d # ds) \<and> tail = []
              | Inl early \<Rightarrow>
                  tail = [] \<or> (\<exists>d err. tail = [Write (event_bytes d)] \<and> early = Fail err)"
          using r by (simp split: sum.splits)
        ultimately show ?thesis
          unfolding eq by blast
      qed
    qed
  qed
qed

subsection \<open>The stages of \<^verbatim>\<open>QueryText\<close>\<close>

lemma Errorf_literals:
  "Errorf ''writer does not implement http.Flusher'' [] = New ''writer does not implement http.Flusher''"
  "Errorf ''cannot calculate tokens'' [] = New ''cannot calculate tokens''"
  "Errorf ''exceeds max tokens'' [] = New ''exceeds max tokens''"
  "Errorf ''Token count [%d] exceeds model [%s] max context [%d]''
       [ArgInt tokenCount, ArgStr model, ArgInt contextLength]
     = New (''Token count ['' @ FormatInt tokenCount @ ''] exceeds model ['' @ model
         @ ''] max context ['' @ FormatInt contextLength @ '']'')"
  by (simp_all add: Errorf_def)

lemma stage_panic:
  "getClient env p = Inl pv \<Longrightarrow>
   QueryText env p question w history prompt knowledgeMessages agentInfo = (Panic pv, w, [])"
  by (simp add: QueryText_def)

lemma stage_not_flusher:
  "getClient env p = Inr client \<Longrightarrow> \<not> flusher w \<Longrightarrow>
   QueryText env p question w history prompt knowledgeMessages agentInfo
     = (Fail (New ''writer does not implement http.Flusher''), w, [])"
  unfolding QueryText_def Errorf_literals by simp

lemma stage_token_error:
  "getClient env p = Inr client \<Longrightarrow> flusher w \<Longrightarrow>
   GetTokenSize env (resolved_model p) question = Inl err \<Longrightarrow>
   QueryText env p question w history prompt knowledgeMessages agentInfo = (Fail err, w, [])"
  unfolding QueryText_def resolved_model_def Let_def by simp

lemma stage_dry_run:
  "getClient env p = Inr client \<Longrightarrow> flusher w \<Longrightarrow>
   GetTokenSize env (resolved_model p) question = Inr tokenCount \<Longrightarrow>
   HasPrefix question ''$CasibaseDryRun$'' \<Longrightarrow>
   QueryText env p question w history prompt knowledgeMessages agentInfo
     = (case getDefaultModelResult env (resolved_model p) question '''' of
          Inl err \<Rightarrow> (Fail (New ''cannot calculate tokens''), w, [])
        | Inr modelResult \<Rightarrow>
            if TotalTokenCount modelResult <s getContextLength env (subType p)
            then (Success modelResult, w, [])
            else (Fail (New ''exceeds max tokens''), w, []))"
  unfolding QueryText_def resolved_model_def Let_def Errorf_literals by simp

lemma stage_exceeds:
  "getClient env p = Inr client \<Longrightarrow> flusher w \<Longrightarrow>
   GetTokenSize env (resolved_model p) question = Inr tokenCount \<Longrightarrow>
   \<not> HasPrefix question ''$CasibaseDryRun$'' \<Longrightarrow>
   getContextLength env (subType p) - tokenCount <s 0 \<Longrightarrow>
   QueryText env p question w history prompt knowledgeMessages agentInfo
     = (Fail (New (''Token count ['' @ FormatInt (sint tokenCount) @ ''] exceeds model [''
                    @ resolved_model p @ ''] max context [''
                    @ FormatInt (sint (getContextLength env (subType p))) @ '']'')), w, [])"
  unfolding QueryText_def resolved_model_def Let_def Errorf_literals by simp

lemma stage_live:
  "getClient env p = Inr client \<Longrightarrow> flusher w \<Longrightarrow>
   GetTokenSize env (resolved_model p) question = Inr tokenCount \<Longrightarrow>
   \<not> HasPrefix question ''$CasibaseDryRun$'' \<Longrightarrow>
   \<not> getContextLength env (subType p) - tokenCount <s 0 \<Longrightarrow>
   request = live_request p question (getContextLength env (subType p) - tokenCount) \<Longrightarrow>
   QueryText env p question w history prompt knowledgeMessages agentInfo
     = (case CreateChatCompletionStream env client request of
          Inl err \<Rightarrow> (Fail err, w, [Create request])
        | Inr respStream \<Rightarrow>
            (case relay w True '''' (completions respStream) (ending respStream) of
               (Inl early, w') \<Rightarrow> (early, w', [Create request, Close])
             | (Inr response, w') \<Rightarrow>
                 (case getDefaultModelResult env (subType p) question response of
                    Inl err \<Rightarrow> (Fail err, w', [Create request, Close])
                  | Inr modelResult \<Rightarrow>
                      (Success (snd (calculatePrice env p modelResult)), w',
                       [Create request, Close]))))"
  unfolding QueryText_def resolved_model_def Let_def live_request_def calculatePrice_def
  by (simp split: sum.splits prod.splits)

lemma getClient_ok:
  "DefaultConfig env (secretKey p) (siteName p) (siteUrl p) = Inr cfg \<Longrightarrow>
   getClient env p = Inr (NewClientWithConfig (cfg\<lparr>HTTPClient := ProxyHttpClient\<rparr>))"
  by (simp add: getClient_def)

lemma requests_of_QueryText:
  assumes "Create request
             \<in> set (snd (snd (QueryText env p question w history prompt knowledgeMessages agentInfo)))"
  shows "0 \<le> sint (MaxTokens request)"
proof (cases "getClient env p")
  case (Inl pv)
  with assms show ?thesis by (simp add: stage_panic)
next
  case client: (Inr client)
  show ?thesis
  proof (cases "flusher w")
    case False
    with client assms show ?thesis by (simp add: stage_not_flusher)
  next
    case flusher: True
    show ?thesis
    proof (cases "GetTokenSize env (resolved_model p) question")
      case (Inl err)
      with client flusher assms show ?thesis by (simp add: stage_token_error)
    next
      case tokens: (Inr tokenCount)
      show ?thesis
      proof (cases "HasPrefix question ''$CasibaseDryRun$''")
        case True
        show ?thesis
          using assms
          by (simp add: stage_dry_run [OF client flusher tokens True]
                split: sum.splits if_splits)
      next
        case live: False
        show ?thesis
        proof (cases "getContextLength env (subType p) - tokenCount <s 0")
          case True
          with assms show ?thesis
            by (simp add: stage_exceeds [OF client flusher tokens live])
        next
          case False
          then have "0 \<le> sint (MaxTokens (live_request p question
                                   (getContextLength env (subType p) - tokenCount)))"
            by (simp add: live_request_def word_sless_alt)
          then show ?thesis
            using assms
            by (auto simp add: stage_live [OF client flusher tokens live False refl]
                  split: sum.splits prod.splits)
        qed
      qed
    qed
  qed
qed

lemma calls_of_QueryText:
  "\<exists>ds tail.
     calls (fst (snd (QueryText env p question w history prompt knowledgeMessages agentInfo)))
       = calls w @ pushed ds @ tail \<and>
     (tail = [] \<or>
      (\<exists>d err. tail = [Write (event_bytes d)] \<and>
         fst (QueryText env p question w history prompt knowledgeMessages agentInfo) = Fail err))"
  (is "\<exists>ds tail. ?P ds tail")
proof -
  have unchanged: ?thesis
    if "fst (snd (QueryText env p question w history prompt knowledgeMessages agentInfo)) = w"
    using that by (intro exI [of _ "[]"]) (simp add: pushed_def)
  show ?thesis
  proof (cases "getClient env p")
    case (Inl pv)
    then show ?thesis by (intro unchanged) (simp add: stage_panic)
  next
    case client: (Inr client)
    show ?thesis
    proof (cases "flusher w")
      case False
      with client show ?thesis by (intro unchanged) (simp add: stage_not_flusher)
    next
      case flusher: True
      show ?thesis
      proof (cases "GetTokenSize env (resolved_model p) question")
        case (Inl err)
        with client flusher show ?thesis by (intro unchanged) (simp add: stage_token_error)
      next
        case tokens: (Inr tokenCount)
        show ?thesis
        proof (cases "HasPrefix question ''$CasibaseDryRun$''")
          case True
          show ?thesis
            by (intro unchanged)
               (simp add: stage_dry_run [OF client flusher tokens True] split: sum.splits)
        next
          case live: False
          show ?thesis
          proof (cases "getContextLength env (subType p) - tokenCount <s 0")
            case True
            then show ?thesis
              by (intro unchanged) (simp add: stage_exceeds [OF client flusher tokens live])
          next
            case False
            note run = stage_live [OF client flusher tokens live False refl]
            let ?request = "live_request p question (getContextLength env (subType p) - tokenCount)"
            show ?thesis
            proof (cases "CreateChatCompletionStream env client ?request")
              case (Inl err)
              then show ?thesis by (intro unchanged) (simp add: run)
            next
              case (Inr respStream)
              let ?loop = "relay w True '''' (completions respStream) (ending respStream)"
              from calls_of_relay [of w True "''''" "completions respStream" "ending respStream"]
              obtain ds tail where
                c: "calls (snd ?loop) = calls w @ pushed ds @ tail" and
                r: "case fst ?loop of
                      Inr response \<Rightarrow> response = '''' @ concat ds \<and> tail = []
                    | Inl early \<Rightarrow>
                        tail = [] \<or> (\<exists>d err. tail = [Write (event_bytes d)] \<and> early = Fail err)"
                by blast
              have "?P ds tail"
                using c r Inr
                by (cases ?loop) (auto simp add: run split: sum.splits)
              then show ?thesis by blast
            qed
          qed
        qed
      qed
    qed
  qed
qed

subsection \<open>Whole runs of the loop\<close>

lemma pushed_bytes:
  "pushed ds = concat (map (\<lambda>d. [Write (''event: message\<newline>data: '' @ d @ ''\<newline>\<newline>''), Flush]) ds)"
  by (simp add: pushed_def event_bytes_def)

lemma relay_all_forwarded:
  assumes "accepting w"
  shows "relay w False acc (map chunk ds) EOF
           = (Inr (acc @ concat ds), w\<lparr>calls := calls w @ pushed ds\<rparr>)"
  using relay_forward [OF assms, of acc ds "[]" EOF] by simp

lemma relay_all_blank:
  assumes "accepting w" and "list_all blank pre"
  shows "relay w True acc (map chunk pre) EOF
           = (Inr acc, w\<lparr>calls := calls w @ pushed (filter (\<lambda>f. f = []) pre)\<rparr>)"
  using relay_blank_prefix [OF assms, of acc "[]" EOF] by simp

lemma relay_first_content:
  assumes "accepting w" and "list_all blank pre" and "\<not> blank d"
  shows "relay w True acc (map chunk (pre @ d # rest)) EOF
           = (Inr (acc @ concat (d # rest)),
              w\<lparr>calls := calls w @ pushed (filter (\<lambda>f. f = []) pre @ d # rest)\<rparr>)"
proof -
  have d: "\<not> newlines_only d \<and> d \<noteq> []"
    using assms(3) by (simp add: blank_def not_newlines_only)
  let ?u = "w\<lparr>calls := calls w @ pushed (filter (\<lambda>f. f = []) pre)\<rparr>"
  let ?v = "?u\<lparr>calls := calls ?u @ pushed [d]\<rparr>"
  have "relay w True acc (map chunk (pre @ d # rest)) EOF
          = relay ?u True acc (chunk d # map chunk rest) EOF"
    using relay_blank_prefix [OF assms(1,2), of acc "chunk d # map chunk rest" EOF] by simp
  also have "\<dots> = relay ?v False (acc @ d) (map chunk rest @ []) EOF"
    using assms(1) d by (simp add: relay_forward_one del: relay.simps)
  also have "\<dots> = relay (?v\<lparr>calls := calls ?v @ pushed rest\<rparr>) False ((acc @ d) @ concat rest) [] EOF"
    using assms(1) by (intro relay_forward) simp
  finally show ?thesis by (simp add: pushed_def)
qed

lemma QueryText_runs_relay:
  assumes "DefaultConfig env (secretKey p) (siteName p) (siteUrl p) = Inr cfg"
      and "flusher w"
      and "GetTokenSize env (resolved_model p) question = Inr tokenCount"
      and "\<not> HasPrefix question ''$CasibaseDryRun$''"
      and "\<not> getContextLength env (subType p) - tokenCount <s 0"
      and "CreateChatCompletionStream env
             (NewClientWithConfig (cfg\<lparr>HTTPClient := ProxyHttpClient\<rparr>))
             (live_request p question (getContextLength env (subType p) - tokenCount))
           = Inr respStream"
  shows "fst (snd (QueryText env p question w history prompt knowledgeMessages agentInfo))
           = snd (relay w True '''' (completions respStream) (ending respStream)) \<and>
         fst (QueryText env p question w history prompt knowledgeMessages agentInfo)
           = (case fst (relay w True '''' (completions respStream) (ending respStream)) of
                Inl early \<Rightarrow> early
              | Inr response \<Rightarrow>
                  (case getDefaultModelResult env (subType p) question response of
                     Inl err \<Rightarrow> Fail err
                   | Inr modelResult \<Rightarrow> Success (snd (calculatePrice env p modelResult))))"
  using assms(6)
  by (cases "relay w True '''' (completions respStream) (ending respStream)")
     (simp add: stage_live [OF getClient_ok [OF assms(1)] assms(2,3,4,5) refl]
        split: sum.splits)

subsection \<open>Evaluation of the concrete inputs\<close>

lemmas eval_defs = QueryText_def test_env_def getClient_def demo_provider_def
  NewAIMLAPIModelProvider_def sink0_def buffer0_def HasPrefix_def word_sless_alt chunk_def
  Fprintf_def Flush_call_def calculatePrice_def priceTable_def NewClientWithConfig_def
  getPrice_spec_def AddPrices_spec_def Errorf_def FormatInt_def Count_def resolved_model_def
  live_request_def Let_def

section \<open>The claims\<close>

text \<open>
  C1 says that, for an empty configured model, the resolved default name is the one used
  for the context-length lookup, for the model field of the request and for accounting
  and price lookup. \<^verbatim>\<open>QueryText\<close> does resolve \<^verbatim>\<open>openai/gpt-4o\<close> and counts the tokens of the
  question under that name, but it looks up the context window, fills the model field,
  builds the usage record of a live call and looks up the price under the configured,
  empty name. Here the context window of the empty name is 4096 and that of any other
  name is 128000, and the question has 2 tokens: the request leaves with an empty model
  and a bound of 4094 (not 127998), and the cost is 0 although \<^verbatim>\<open>openai/gpt-4o\<close> is priced.
  With a default-result constructor that knows \<^verbatim>\<open>openai/gpt-4o\<close> only, the same call fails
  after the stream, since the constructor is asked for the empty name.
\<close>

theorem QueryText_empty_subType:
  "resolved_model (demo_provider '''') = ''openai/gpt-4o'' \<and>
   priceTable ''openai/gpt-4o'' = Some [0.005, 0.015] \<and>
   QueryText (test_env (\<lambda>m. if m = '''' then 4096 else 128000)
                \<lparr>completions = [chunk ''Hi''], ending = EOF\<rparr>)
     (demo_provider '''') ''hi'' sink0 () '''' () ()
   = (Success \<lparr>PromptTokenCount = 2, ResponseTokenCount = 2, TotalTokenCount = 4,
               TotalPrice = 0, Currency = ''USD''\<rparr>,
      sink0\<lparr>calls := [Write ''event: message\<newline>data: Hi\<newline>\<newline>'', Flush]\<rparr>,
      [Create \<lparr>Model = '''',
               Messages =
                 [\<lparr>Role = ChatMessageRoleSystem, Content = ''You are a helpful assistant.''\<rparr>,
                  \<lparr>Role = ChatMessageRoleUser, Content = ''hi''\<rparr>],
               Stream = False, Temperature = Some 0.7, TopP = Some 1, MaxTokens = 4094\<rparr>,
       Close]) \<and>
   fst (QueryText (test_env (\<lambda>m. if m = '''' then 4096 else 128000)
                     \<lparr>completions = [chunk ''Hi''], ending = EOF\<rparr>
                     \<lparr>getDefaultModelResult := (\<lambda>model question answer.
                         if model = ''openai/gpt-4o''
                         then Inr \<lparr>PromptTokenCount = 2, ResponseTokenCount = 2,
                                   TotalTokenCount = 4, TotalPrice = 0, Currency = ''''\<rparr>
                         else Inl (New ''unknown model''))\<rparr>)
          (demo_provider '''') ''hi'' sink0 () '''' () ())
     = Fail (New ''unknown model'')"
  by (simp add: eval_defs)

text \<open>
  C2 does not hold as stated. On the stream \<open>["", "x"]\<close> the empty fragment is pushed as
  an event of its own, so two events reach the sink and not the one of \<open>"x"\<close> alone; and
  on \<open>["", "\n", "x"]\<close> the newline fragment that follows the empty one is still
  discarded, so the empty fragment has not ended leading mode.
\<close>

theorem empty_fragment_counterexample:
  "calls (fst (snd (QueryText (test_env (\<lambda>m. 4096)
                                \<lparr>completions = map chunk ['''', ''x''], ending = EOF\<rparr>)
                      (demo_provider ''gpt-4o-mini'') ''hi'' sink0 () '''' () ())))
     = [Write ''event: message\<newline>data: \<newline>\<newline>'', Flush,
        Write ''event: message\<newline>data: x\<newline>\<newline>'', Flush] \<and>
   calls (fst (snd (QueryText (test_env (\<lambda>m. 4096)
                                \<lparr>completions = map chunk ['''', ''x''], ending = EOF\<rparr>)
                      (demo_provider ''gpt-4o-mini'') ''hi'' sink0 () '''' () ())))
     \<noteq> pushed [''x''] \<and>
   calls (fst (snd (QueryText (test_env (\<lambda>m. 4096)
                                \<lparr>completions = map chunk ['''', ''\<newline>'', ''x''], ending = EOF\<rparr>)
                      (demo_provider ''gpt-4o-mini'') ''hi'' sink0 () '''' () ())))
     = [Write ''event: message\<newline>data: \<newline>\<newline>'', Flush,
        Write ''event: message\<newline>data: x\<newline>\<newline>'', Flush]"
  by (simp add: eval_defs pushed_def event_bytes_def)

text \<open>
  C2, as the code has it. On a sink that accepts its writes, an empty fragment received
  in leading mode is pushed as an event with empty data and leaves leading mode on: the
  newline-only fragments that follow it are still discarded, and leading mode ends at
  the first fragment \<open>d\<close> that holds a byte other than a newline. A stream that emits
  \<open>["", "x"]\<close> pushes both fragments.
\<close>

theorem relay_empty_fragment_keeps_leading:
  assumes "accepting w" and "list_all newlines_only ns"
  shows "relay w True acc (chunk '''' # map chunk ns @ cs) e
           = relay (w\<lparr>calls := calls w @ pushed ['''']\<rparr>) True acc cs e \<and>
         (\<not> blank d \<longrightarrow>
            relay w True acc (map chunk ('''' # ns @ d # rest)) EOF
              = (Inr (acc @ concat (d # rest)),
                 w\<lparr>calls := calls w @ pushed ('''' # d # rest)\<rparr>))"
proof (intro conjI impI)
  let ?w = "w\<lparr>calls := calls w @ pushed ['''']\<rparr>"
  show step: "relay w True acc (chunk '''' # map chunk ns @ cs) e = relay ?w True acc cs e" for cs e
    using assms by (simp add: relay_forward_one newlines_only_def relay_skip del: relay.simps)
  assume "\<not> blank d"
  then have d: "Count d CHR ''\<newline>'' \<noteq> length d" by (simp add: blank_def)
  let ?v = "?w\<lparr>calls := calls ?w @ pushed [d]\<rparr>"
  have "relay w True acc (map chunk ('''' # ns @ d # rest)) EOF
          = relay ?w True acc (chunk d # map chunk rest) EOF"
    using step [of "chunk d # map chunk rest" EOF] by simp
  also have "\<dots> = relay ?v False (acc @ d) (map chunk rest @ []) EOF"
    using assms(1) not_newlines_only [OF d] by (simp add: relay_forward_one del: relay.simps)
  also have "\<dots> = relay (?v\<lparr>calls := calls ?v @ pushed rest\<rparr>) False ((acc @ d) @ concat rest) [] EOF"
    using assms(1) by (intro relay_forward) simp
  finally show "relay w True acc (map chunk ('''' # ns @ d # rest)) EOF
      = (Inr (acc @ concat (d # rest)), w\<lparr>calls := calls w @ pushed ('''' # d # rest)\<rparr>)"
    by (simp add: pushed_def)
qed

theorem relay_empty_fragment_keeps_leading_witness:
  "accepting sink0 \<and> list_all newlines_only [''\<newline>''] \<and> \<not> blank ''x'' \<and>
   relay sink0 True '''' (map chunk ['''', ''\<newline>'', ''x'']) EOF
     = (Inr ''x'',
        sink0\<lparr>calls := [Write ''event: message\<newline>data: \<newline>\<newline>'', Flush,
                         Write ''event: message\<newline>data: x\<newline>\<newline>'', Flush]\<rparr>)"
proof -
  have a: "accepting sink0" by (simp add: accepting_def sink0_def)
  have n: "list_all newlines_only [''\<newline>'']"
    by (simp add: newlines_only_def Count_def)
  have d: "\<not> blank ''x''" by (simp add: blank_def Count_def)
  show ?thesis
    using a n d
      relay_empty_fragment_keeps_leading [OF a n, of "''''" "[]" EOF "''x''" "[]"]
    by (simp add: pushed_def event_bytes_def sink0_def)
qed

text \<open>
  C3. On a sink that accepts its writes, a leading run of non-empty fragments made of
  newlines only is discarded: the loop goes on as if the run had not been received, with
  the same sink and the same accumulated answer. When the first fragment \<open>d\<close> that holds
  a byte other than a newline arrives, \<open>d\<close> and every later fragment are pushed in the
  order of arrival, and the answer is their concatenation; before \<open>d\<close> the sink has
  received the events of the empty fragments only.
\<close>

theorem relay_leading_newlines:
  assumes "accepting w"
  shows "(list_all newlines_only ns \<longrightarrow>
            relay w True acc (map chunk ns @ cs) e = relay w True acc cs e) \<and>
         (list_all blank pre \<and> \<not> blank d \<longrightarrow>
            relay w True acc (map chunk (pre @ d # rest)) EOF
              = (Inr (acc @ concat (d # rest)),
                 w\<lparr>calls := calls w @ pushed (filter (\<lambda>f. f = []) pre @ d # rest)\<rparr>))"
proof (intro conjI impI)
  show "relay w True acc (map chunk ns @ cs) e = relay w True acc cs e"
    if "list_all newlines_only ns"
    using that by (rule relay_skip)
  assume pre: "list_all blank pre \<and> \<not> blank d"
  then have d: "\<not> newlines_only d \<and> d \<noteq> []"
    by (simp add: blank_def not_newlines_only)
  let ?u = "w\<lparr>calls := calls w @ pushed (filter (\<lambda>f. f = []) pre)\<rparr>"
  let ?v = "?u\<lparr>calls := calls ?u @ pushed [d]\<rparr>"
  have "relay w True acc (map chunk (pre @ d # rest)) EOF
          = relay ?u True acc (chunk d # map chunk rest) EOF"
    using relay_blank_prefix [of w pre acc "chunk d # map chunk rest" EOF] assms pre by simp
  also have "\<dots> = relay ?v False (acc @ d) (map chunk rest @ []) EOF"
    using assms d by (simp add: relay_forward_one del: relay.simps)
  also have "\<dots> = relay (?v\<lparr>calls := calls ?v @ pushed rest\<rparr>) False ((acc @ d) @ concat rest) [] EOF"
    using assms by (intro relay_forward) simp
  finally show "relay w True acc (map chunk (pre @ d # rest)) EOF
      = (Inr (acc @ concat (d # rest)),
         w\<lparr>calls := calls w @ pushed (filter (\<lambda>f. f = []) pre @ d # rest)\<rparr>)"
    by (simp add: pushed_def)
qed

theorem relay_leading_newlines_witness:
  "accepting sink0 \<and> list_all newlines_only [''\<newline>'', ''\<newline>\<newline>''] \<and>
   list_all blank [''\<newline>'', ''\<newline>\<newline>''] \<and> \<not> blank ''Hi'' \<and>
   relay sink0 True '''' (map chunk [''\<newline>'', ''\<newline>\<newline>'', ''Hi'', ''\<newline>there'']) EOF
     = (Inr ''Hi\<newline>there'',
        sink0\<lparr>calls := [Write ''event: message\<newline>data: Hi\<newline>\<newline>'', Flush,
                         Write ''event: message\<newline>data: \<newline>there\<newline>\<newline>'', Flush]\<rparr>) \<and>
   QueryText (test_env (\<lambda>m. 4096)
                \<lparr>completions = map chunk [''\<newline>'', ''\<newline>\<newline>'', ''Hi'', ''\<newline>there''],
                 ending = EOF\<rparr>)
     (demo_provider ''my-model'') ''hi'' sink0 () '''' () ()
     = (Success \<lparr>PromptTokenCount = 2, ResponseTokenCount = 8, TotalTokenCount = 10,
                 TotalPrice = 0, Currency = ''USD''\<rparr>,
        sink0\<lparr>calls := [Write ''event: message\<newline>data: Hi\<newline>\<newline>'', Flush,
                         Write ''event: message\<newline>data: \<newline>there\<newline>\<newline>'', Flush]\<rparr>,
        [Create (live_request (demo_provider ''my-model'') ''hi'' 4094), Close])"
proof -
  have a: "accepting sink0" by (simp add: accepting_def sink0_def)
  have n: "list_all newlines_only [''\<newline>'', ''\<newline>\<newline>'']"
    by (simp add: newlines_only_def Count_def)
  have b: "list_all blank [''\<newline>'', ''\<newline>\<newline>''] \<and> \<not> blank ''Hi''"
    by (simp add: blank_def Count_def)
  have run: "QueryText (test_env (\<lambda>m. 4096)
                \<lparr>completions = map chunk [''\<newline>'', ''\<newline>\<newline>'', ''Hi'', ''\<newline>there''],
                 ending = EOF\<rparr>)
     (demo_provider ''my-model'') ''hi'' sink0 () '''' () ()
     = (Success \<lparr>PromptTokenCount = 2, ResponseTokenCount = 8, TotalTokenCount = 10,
                 TotalPrice = 0, Currency = ''USD''\<rparr>,
        sink0\<lparr>calls := [Write ''event: message\<newline>data: Hi\<newline>\<newline>'', Flush,
                         Write ''event: message\<newline>data: \<newline>there\<newline>\<newline>'', Flush]\<rparr>,
        [Create (live_request (demo_provider ''my-model'') ''hi'' 4094), Close])"
    by (simp add: eval_defs)
  show ?thesis
    using a n b run
      relay_leading_newlines [OF a, of "[''\<newline>'', ''\<newline>\<newline>'']" "''''" "[]" EOF
        "[''\<newline>'', ''\<newline>\<newline>'']" "''Hi''" "[''\<newline>there'']"]
    by (simp add: pushed_def event_bytes_def sink0_def)
qed

text \<open>
  C4. In live mode (the client is built, the sink can flush, the tokens of the question
  are counted, the question is not a dry run) \<^verbatim>\<open>maxTokens\<close> is the context length minus
  the token count, in 64-bit arithmetic, which is their difference as integers when
  neither is negative. When it is negative the call fails with an error whose message
  carries the token count, the resolved model and the context length, and the client is
  not called. Otherwise the one request is built with that bound. Whatever the call, a
  request that it issues has a bound of at least 0.
\<close>

theorem QueryText_live_max_tokens:
  assumes "DefaultConfig env (secretKey p) (siteName p) (siteUrl p) = Inr cfg"
      and "flusher w"
      and "GetTokenSize env (resolved_model p) question = Inr tokenCount"
      and "\<not> HasPrefix question ''$CasibaseDryRun$''"
      and "contextLength = getContextLength env (subType p)"
      and "maxTokens = contextLength - tokenCount"
  shows "(maxTokens <s 0 \<longrightarrow>
            QueryText env p question w history prompt knowledgeMessages agentInfo
              = (Fail (New (''Token count ['' @ FormatInt (sint tokenCount)
                             @ ''] exceeds model ['' @ resolved_model p
                             @ ''] max context ['' @ FormatInt (sint contextLength) @ '']'')),
                 w, [])) \<and>
         (\<not> maxTokens <s 0 \<longrightarrow>
            0 \<le> sint maxTokens \<and>
            MaxTokens (live_request p question maxTokens) = maxTokens \<and>
            snd (snd (QueryText env p question w history prompt knowledgeMessages agentInfo))
              \<in> {[Create (live_request p question maxTokens)],
                  [Create (live_request p question maxTokens), Close]}) \<and>
         (0 \<le> sint tokenCount \<and> 0 \<le> sint contextLength \<longrightarrow>
            sint maxTokens = sint contextLength - sint tokenCount) \<and>
         (\<forall>request.
            Create request
              \<in> set (snd (snd (QueryText env p question w history prompt knowledgeMessages
                                 agentInfo)))
            \<longrightarrow> 0 \<le> sint (MaxTokens request))"
proof (intro conjI impI allI)
  note client = getClient_ok [OF assms(1)]
  show "QueryText env p question w history prompt knowledgeMessages agentInfo
          = (Fail (New (''Token count ['' @ FormatInt (sint tokenCount)
                         @ ''] exceeds model ['' @ resolved_model p
                         @ ''] max context ['' @ FormatInt (sint contextLength) @ '']'')),
             w, [])" if "maxTokens <s 0"
    using that assms(5,6) by (simp add: stage_exceeds [OF client assms(2,3,4)])
  show "0 \<le> sint maxTokens" if "\<not> maxTokens <s 0"
    using that by (simp add: word_sless_alt)
  show "MaxTokens (live_request p question maxTokens) = maxTokens"
    by (simp add: live_request_def)
  show "snd (snd (QueryText env p question w history prompt knowledgeMessages agentInfo))
          \<in> {[Create (live_request p question maxTokens)],
              [Create (live_request p question maxTokens), Close]}" if "\<not> maxTokens <s 0"
  proof -
    have live: "\<not> getContextLength env (subType p) - tokenCount <s 0"
      using that assms(5,6) by simp
    show ?thesis
      unfolding assms(5,6)
      by (simp add: stage_live [OF client assms(2,3,4) live refl]
            split: sum.splits prod.splits)
  qed
  show "sint maxTokens = sint contextLength - sint tokenCount"
    if "0 \<le> sint tokenCount \<and> 0 \<le> sint contextLength"
    using that assms(6) by (simp add: sint_diff_nonneg)
  show "0 \<le> sint (MaxTokens request)"
    if "Create request
          \<in> set (snd (snd (QueryText env p question w history prompt knowledgeMessages
                             agentInfo)))" for request
    using that by (rule requests_of_QueryText)
qed

theorem QueryText_live_max_tokens_witness:
  "QueryText (test_env (\<lambda>m. 100) \<lparr>completions = [chunk ''Hi''], ending = EOF\<rparr>)
     (demo_provider ''gpt-4o-mini'') (replicate 120 CHR ''a'') sink0 () '''' () ()
     = (Fail (New ''Token count [120] exceeds model [gpt-4o-mini] max context [100]''),
        sink0, []) \<and>
   snd (snd (QueryText (test_env (\<lambda>m. 100) \<lparr>completions = [chunk ''Hi''], ending = EOF\<rparr>)
               (demo_provider ''gpt-4o-mini'') (replicate 20 CHR ''a'') sink0 () '''' () ()))
     \<in> {[Create (live_request (demo_provider ''gpt-4o-mini'') (replicate 20 CHR ''a'') 80)],
         [Create (live_request (demo_provider ''gpt-4o-mini'') (replicate 20 CHR ''a'') 80),
          Close]}"
proof -
  let ?env = "test_env (\<lambda>m. 100) \<lparr>completions = [chunk ''Hi''], ending = EOF\<rparr>"
  let ?p = "demo_provider ''gpt-4o-mini''"
  have cfg: "DefaultConfig ?env (secretKey ?p) (siteName ?p) (siteUrl ?p)
               = Inr \<lparr>HTTPClient = DefaultHttpClient\<rparr>"
    by (simp add: test_env_def)
  have fl: "flusher sink0" by (simp add: sink0_def)
  have ctx: "(100 :: go_int) = getContextLength ?env (subType ?p)" by (simp add: test_env_def)
  have t120: "GetTokenSize ?env (resolved_model ?p) (replicate 120 CHR ''a'') = Inr 120"
    by (simp add: test_env_def)
  have t20: "GetTokenSize ?env (resolved_model ?p) (replicate 20 CHR ''a'') = Inr 20"
    by (simp add: test_env_def)
  have live120: "\<not> HasPrefix (replicate 120 CHR ''a'') ''$CasibaseDryRun$''"
    by (simp add: HasPrefix_def)
  have live20: "\<not> HasPrefix (replicate 20 CHR ''a'') ''$CasibaseDryRun$''"
    by (simp add: HasPrefix_def)
  have m120: "((100 :: go_int) - 120) <s 0" by (simp add: word_sless_alt)
  have m20: "\<not> ((100 :: go_int) - 20) <s 0" by (simp add: word_sless_alt)
  show ?thesis
    using QueryText_live_max_tokens [OF cfg fl t120 live120 ctx refl, of "()" "''''" "()" "()"]
      QueryText_live_max_tokens [OF cfg fl t20 live20 ctx refl, of "()" "''''" "()" "()"]
      m120 m20
    by (simp add: FormatInt_def resolved_model_def demo_provider_def
          NewAIMLAPIModelProvider_def)
qed


text \<open>
  C5 does not hold as stated: the client is built and the sink is tested before the dry
  run is looked at. A dry-run question of 18 tokens, under a context length of 100, ends
  in the error of the sink on a sink that cannot flush, and in a panic when the client
  configuration cannot be built; in neither case in a usage record.
\<close>

theorem dry_run_counterexample:
  "HasPrefix ''$CasibaseDryRun$hi'' ''$CasibaseDryRun$'' \<and>
   GetTokenSize (test_env (\<lambda>m. 100) \<lparr>completions = [], ending = EOF\<rparr>)
     (resolved_model (demo_provider ''gpt-4o-mini'')) ''$CasibaseDryRun$hi'' = Inr 18 \<and>
   (18 :: go_int) <s getContextLength (test_env (\<lambda>m. 100) \<lparr>completions = [], ending = EOF\<rparr>)
                       (subType (demo_provider ''gpt-4o-mini'')) \<and>
   QueryText (test_env (\<lambda>m. 100) \<lparr>completions = [], ending = EOF\<rparr>)
     (demo_provider ''gpt-4o-mini'') ''$CasibaseDryRun$hi'' buffer0 () '''' () ()
     = (Fail (New ''writer does not implement http.Flusher''), buffer0, []) \<and>
   QueryText (test_env (\<lambda>m. 100) \<lparr>completions = [], ending = EOF\<rparr>
                \<lparr>DefaultConfig := (\<lambda>key name url. Inl (New ''no key''))\<rparr>)
     (demo_provider ''gpt-4o-mini'') ''$CasibaseDryRun$hi'' sink0 () '''' () ()
     = (Panic (PanicError (New ''no key'')), sink0, [])"
  by (simp add: eval_defs)

text \<open>
  C5, as the code has it. Take a question with the dry-run prefix, a token count that
  succeeds and a default-result constructor that returns the prompt-only record of the
  specification (response count 0, total count equal to the prompt count). When the
  client configuration cannot be built the call panics with the error of the
  constructor. When it is built and the sink cannot flush, the call fails with the error
  of the sink. When it is built and the sink can flush, the call returns that record if
  the prompt count is below the context length, and fails with the error "exceeds max
  tokens" if it is not. In all four cases neither the sink nor the client is called.
\<close>

theorem QueryText_dry_run_result:
  assumes "HasPrefix question ''$CasibaseDryRun$''"
      and "GetTokenSize env (resolved_model p) question = Inr promptTokenCount"
      and "getDefaultModelResult env (resolved_model p) question '''' = Inr modelResult"
      and "prompt_only_result promptTokenCount modelResult"
      and "contextLength = getContextLength env (subType p)"
  shows "(DefaultConfig env (secretKey p) (siteName p) (siteUrl p) = Inl err \<longrightarrow>
            QueryText env p question w history prompt knowledgeMessages agentInfo
              = (Panic (PanicError err), w, [])) \<and>
         (DefaultConfig env (secretKey p) (siteName p) (siteUrl p) = Inr cfg \<and>
          \<not> flusher w \<longrightarrow>
            QueryText env p question w history prompt knowledgeMessages agentInfo
              = (Fail (New ''writer does not implement http.Flusher''), w, [])) \<and>
         (DefaultConfig env (secretKey p) (siteName p) (siteUrl p) = Inr cfg \<and>
          flusher w \<and> promptTokenCount <s contextLength \<longrightarrow>
            QueryText env p question w history prompt knowledgeMessages agentInfo
              = (Success modelResult, w, []) \<and>
            ResponseTokenCount modelResult = 0 \<and>
            TotalTokenCount modelResult = PromptTokenCount modelResult) \<and>
         (DefaultConfig env (secretKey p) (siteName p) (siteUrl p) = Inr cfg \<and>
          flusher w \<and> \<not> promptTokenCount <s contextLength \<longrightarrow>
            QueryText env p question w history prompt knowledgeMessages agentInfo
              = (Fail (New ''exceeds max tokens''), w, []))"
proof (cases "DefaultConfig env (secretKey p) (siteName p) (siteUrl p)")
  case (Inl e)
  then show ?thesis
    by (simp add: stage_panic getClient_def)
next
  case built: (Inr c)
  note client = getClient_ok [OF built]
  show ?thesis
  proof (cases "flusher w")
    case False
    then show ?thesis
      using built by (simp add: stage_not_flusher [OF client])
  next
    case True
    have "TotalTokenCount modelResult = promptTokenCount"
      and "ResponseTokenCount modelResult = 0"
      and "TotalTokenCount modelResult = PromptTokenCount modelResult"
      using assms(4) by (simp_all add: prompt_only_result_def)
    then show ?thesis
      using True built assms(3,5) by (simp add: stage_dry_run [OF client True assms(2,1)])
  qed
qed

theorem QueryText_dry_run_result_witness:
  "QueryText (test_env (\<lambda>m. 100) \<lparr>completions = [], ending = EOF\<rparr>
                \<lparr>DefaultConfig := (\<lambda>key name url. Inl (New ''no key''))\<rparr>)
     (demo_provider ''gpt-4o-mini'') ''$CasibaseDryRun$hi'' sink0 () '''' () ()
     = (Panic (PanicError (New ''no key'')), sink0, []) \<and>
   QueryText (test_env (\<lambda>m. 100) \<lparr>completions = [], ending = EOF\<rparr>)
     (demo_provider ''gpt-4o-mini'') ''$CasibaseDryRun$hi'' buffer0 () '''' () ()
     = (Fail (New ''writer does not implement http.Flusher''), buffer0, []) \<and>
   QueryText (test_env (\<lambda>m. 100) \<lparr>completions = [], ending = EOF\<rparr>)
     (demo_provider ''gpt-4o-mini'') ''$CasibaseDryRun$hi'' sink0 () '''' () ()
     = (Success \<lparr>PromptTokenCount = 18, ResponseTokenCount = 0, TotalTokenCount = 18,
                 TotalPrice = 0, Currency = ''''\<rparr>, sink0, []) \<and>
   QueryText (test_env (\<lambda>m. 18) \<lparr>completions = [], ending = EOF\<rparr>)
     (demo_provider ''gpt-4o-mini'') ''$CasibaseDryRun$hi'' sink0 () '''' () ()
     = (Fail (New ''exceeds max tokens''), sink0, [])"
proof -
  let ?p = "demo_provider ''gpt-4o-mini''"
  let ?q = "''$CasibaseDryRun$hi''"
  let ?s = "\<lparr>completions = [], ending = EOF\<rparr>"
  let ?mr = "\<lparr>PromptTokenCount = 18, ResponseTokenCount = 0, TotalTokenCount = 18,
              TotalPrice = 0, Currency = ''''\<rparr>"
  let ?e100 = "test_env (\<lambda>m. 100) ?s"
  let ?e18 = "test_env (\<lambda>m. 18) ?s"
  let ?bad = "?e100\<lparr>DefaultConfig := (\<lambda>key name url. Inl (New ''no key''))\<rparr>"
  have dry: "HasPrefix ?q ''$CasibaseDryRun$''" by (simp add: HasPrefix_def)
  have only: "prompt_only_result 18 ?mr" by (simp add: prompt_only_result_def)
  have fl: "flusher sink0" "\<not> flusher buffer0" by (simp_all add: sink0_def buffer0_def)
  have below: "(18 :: go_int) <s 100" and not_below: "\<not> (18 :: go_int) <s 18"
    by (simp_all add: word_sless_alt)
  have tokens: "GetTokenSize ?e100 (resolved_model ?p) ?q = Inr 18"
      "GetTokenSize ?e18 (resolved_model ?p) ?q = Inr 18"
      "GetTokenSize ?bad (resolved_model ?p) ?q = Inr 18"
    by (simp_all add: test_env_def)
  have result: "getDefaultModelResult ?e100 (resolved_model ?p) ?q '''' = Inr ?mr"
      "getDefaultModelResult ?e18 (resolved_model ?p) ?q '''' = Inr ?mr"
      "getDefaultModelResult ?bad (resolved_model ?p) ?q '''' = Inr ?mr"
    by (simp_all add: test_env_def)
  have ctx: "100 = getContextLength ?e100 (subType ?p)" "18 = getContextLength ?e18 (subType ?p)"
      "100 = getContextLength ?bad (subType ?p)"
    by (simp_all add: test_env_def)
  have cfg: "DefaultConfig ?e100 (secretKey ?p) (siteName ?p) (siteUrl ?p)
               = Inr \<lparr>HTTPClient = DefaultHttpClient\<rparr>"
      "DefaultConfig ?e18 (secretKey ?p) (siteName ?p) (siteUrl ?p)
               = Inr \<lparr>HTTPClient = DefaultHttpClient\<rparr>"
      "DefaultConfig ?bad (secretKey ?p) (siteName ?p) (siteUrl ?p) = Inl (New ''no key'')"
    by (simp_all add: test_env_def)
  note at_bad = QueryText_dry_run_result [OF dry tokens(3) result(3) only ctx(3)]
  note at_100 = QueryText_dry_run_result [OF dry tokens(1) result(1) only ctx(1)]
  note at_18 = QueryText_dry_run_result [OF dry tokens(2) result(2) only ctx(2)]
  have 1: "QueryText ?bad ?p ?q sink0 () '''' () () = (Panic (PanicError (New ''no key'')), sink0, [])"
    using at_bad [where w = sink0 and history = "()" and prompt = "''''"
        and knowledgeMessages = "()" and agentInfo = "()",
        THEN conjunct1] cfg(3)
    by simp
  have 2: "QueryText ?e100 ?p ?q buffer0 () '''' () ()
             = (Fail (New ''writer does not implement http.Flusher''), buffer0, [])"
    using at_100 [where w = buffer0 and history = "()" and prompt = "''''"
        and knowledgeMessages = "()" and agentInfo = "()",
        THEN conjunct2, THEN conjunct1] cfg(1) fl(2)
    by simp
  have 3: "QueryText ?e100 ?p ?q sink0 () '''' () () = (Success ?mr, sink0, [])"
    using at_100 [where w = sink0 and history = "()" and prompt = "''''"
        and knowledgeMessages = "()" and agentInfo = "()",
        THEN conjunct2, THEN conjunct2, THEN conjunct1] cfg(1) fl(1) below
    by simp
  have 4: "QueryText ?e18 ?p ?q sink0 () '''' () () = (Fail (New ''exceeds max tokens''), sink0, [])"
    using at_18 [where w = sink0 and history = "()" and prompt = "''''"
        and knowledgeMessages = "()" and agentInfo = "()",
        THEN conjunct2, THEN conjunct2, THEN conjunct2] cfg(2) fl(1)
      not_below
    by simp
  show ?thesis using 1 2 3 4 by simp
qed

text \<open>
  C6. With the price helpers of the specification, \<^verbatim>\<open>calculatePrice\<close> returns no error and
  sets the currency to "USD"; when the configured model has an entry in the price table,
  the total price is the prompt tokens by a thousand times the input price plus the
  response tokens by a thousand times the output price of that entry; when it has none,
  the total price is 0.
\<close>

theorem calculatePrice_cost:
  assumes "getPrice env = getPrice_spec" and "AddPrices env = AddPrices_spec"
  shows "fst (calculatePrice env p modelResult) = None \<and>
         Currency (snd (calculatePrice env p modelResult)) = ''USD'' \<and>
         (\<forall>priceItem. priceTable (subType p) = Some priceItem \<longrightarrow>
            length priceItem = 2 \<and>
            TotalPrice (snd (calculatePrice env p modelResult))
              = real_of_int (sint (PromptTokenCount modelResult)) / 1000 * priceItem ! 0
                + real_of_int (sint (ResponseTokenCount modelResult)) / 1000 * priceItem ! 1) \<and>
         (priceTable (subType p) = None \<longrightarrow>
            TotalPrice (snd (calculatePrice env p modelResult)) = 0)"
  using assms
  by (cases "priceTable (subType p)")
     (simp_all add: calculatePrice_def getPrice_spec_def AddPrices_spec_def priceTable_entry)

theorem calculatePrice_cost_witness:
  "priceTable (subType (demo_provider ''gpt-4o-mini'')) = Some [0.003, 0.006] \<and>
   TotalPrice (snd (calculatePrice (test_env (\<lambda>m. 100) \<lparr>completions = [], ending = EOF\<rparr>)
                      (demo_provider ''gpt-4o-mini'')
                      \<lparr>PromptTokenCount = 2000, ResponseTokenCount = 1000,
                       TotalTokenCount = 3000, TotalPrice = 0, Currency = ''''\<rparr>)) = 0.012 \<and>
   priceTable (subType (demo_provider ''my-model'')) = None \<and>
   TotalPrice (snd (calculatePrice (test_env (\<lambda>m. 100) \<lparr>completions = [], ending = EOF\<rparr>)
                      (demo_provider ''my-model'')
                      \<lparr>PromptTokenCount = 2000, ResponseTokenCount = 1000,
                       TotalTokenCount = 3000, TotalPrice = 0, Currency = ''''\<rparr>)) = 0"
proof -
  let ?env = "test_env (\<lambda>m. 100) \<lparr>completions = [], ending = EOF\<rparr>"
  let ?mr = "\<lparr>PromptTokenCount = 2000, ResponseTokenCount = 1000,
              TotalTokenCount = 3000, TotalPrice = 0, Currency = ''''\<rparr>"
  have g: "getPrice ?env = getPrice_spec" and a: "AddPrices ?env = AddPrices_spec"
    by (simp_all add: test_env_def)
  have known: "priceTable (subType (demo_provider ''gpt-4o-mini'')) = Some [0.003, 0.006]"
    by (simp add: priceTable_def demo_provider_def NewAIMLAPIModelProvider_def)
  have unknown: "priceTable (subType (demo_provider ''my-model'')) = None"
    by (simp add: priceTable_def demo_provider_def NewAIMLAPIModelProvider_def)
  show ?thesis
    using calculatePrice_cost [OF g a, of "demo_provider ''gpt-4o-mini''" ?mr]
      calculatePrice_cost [OF g a, of "demo_provider ''my-model''" ?mr]
      known unknown
    by simp
qed


text \<open>
  C7. A call that ends before the live request is built, because the sink cannot flush,
  or the token count fails, or the question is a dry run, or the context length minus
  the token count is negative, leaves the sink as it was and makes no call on the
  client: no stream request is issued and nothing is written.
\<close>

theorem QueryText_early_exit_no_effects:
  assumes "\<not> flusher w \<or>
           (\<exists>err. GetTokenSize env (resolved_model p) question = Inl err) \<or>
           HasPrefix question ''$CasibaseDryRun$'' \<or>
           (\<exists>tokenCount. GetTokenSize env (resolved_model p) question = Inr tokenCount \<and>
              getContextLength env (subType p) - tokenCount <s 0)"
  shows "snd (QueryText env p question w history prompt knowledgeMessages agentInfo) = (w, [])"
proof (cases "getClient env p")
  case (Inl pv)
  then show ?thesis by (simp add: stage_panic)
next
  case client: (Inr client)
  show ?thesis
  proof (cases "flusher w")
    case False
    with client show ?thesis by (simp add: stage_not_flusher)
  next
    case flusher: True
    show ?thesis
    proof (cases "GetTokenSize env (resolved_model p) question")
      case (Inl err)
      with client flusher show ?thesis by (simp add: stage_token_error)
    next
      case tokens: (Inr tokenCount)
      show ?thesis
      proof (cases "HasPrefix question ''$CasibaseDryRun$''")
        case True
        show ?thesis
          by (simp add: stage_dry_run [OF client flusher tokens True] split: sum.splits)
      next
        case False
        with assms flusher tokens
        have "getContextLength env (subType p) - tokenCount <s 0" by auto
        then show ?thesis
          by (simp add: stage_exceeds [OF client flusher tokens False])
      qed
    qed
  qed
qed

theorem QueryText_early_exit_no_effects_witness:
  "snd (QueryText (test_env (\<lambda>m. 100) \<lparr>completions = [chunk ''Hi''], ending = EOF\<rparr>)
          (demo_provider ''gpt-4o-mini'') ''hi'' buffer0 () '''' () ()) = (buffer0, []) \<and>
   snd (QueryText (test_env (\<lambda>m. 100) \<lparr>completions = [chunk ''Hi''], ending = EOF\<rparr>
                     \<lparr>GetTokenSize := (\<lambda>model text. Inl (New ''no tokenizer''))\<rparr>)
          (demo_provider ''gpt-4o-mini'') ''hi'' sink0 () '''' () ()) = (sink0, []) \<and>
   snd (QueryText (test_env (\<lambda>m. 100) \<lparr>completions = [chunk ''Hi''], ending = EOF\<rparr>)
          (demo_provider ''gpt-4o-mini'') ''$CasibaseDryRun$hi'' sink0 () '''' () ())
     = (sink0, []) \<and>
   snd (QueryText (test_env (\<lambda>m. 100) \<lparr>completions = [chunk ''Hi''], ending = EOF\<rparr>)
          (demo_provider ''gpt-4o-mini'') (replicate 120 CHR ''a'') sink0 () '''' () ())
     = (sink0, [])"
proof -
  let ?env = "test_env (\<lambda>m. 100) \<lparr>completions = [chunk ''Hi''], ending = EOF\<rparr>"
  let ?p = "demo_provider ''gpt-4o-mini''"
  have sink: "\<not> flusher buffer0" by (simp add: buffer0_def)
  have count: "GetTokenSize (?env\<lparr>GetTokenSize := (\<lambda>model text. Inl (New ''no tokenizer''))\<rparr>)
                 (resolved_model ?p) ''hi'' = Inl (New ''no tokenizer'')"
    by simp
  have dry: "HasPrefix ''$CasibaseDryRun$hi'' ''$CasibaseDryRun$''" by (simp add: HasPrefix_def)
  have over: "GetTokenSize ?env (resolved_model ?p) (replicate 120 CHR ''a'') = Inr 120 \<and>
              getContextLength ?env (subType ?p) - 120 <s 0"
    by (simp add: test_env_def word_sless_alt)
  show ?thesis
    using QueryText_early_exit_no_effects [of buffer0 ?env ?p "''hi''" "()" "''''" "()" "()"]
      QueryText_early_exit_no_effects
        [of sink0 "?env\<lparr>GetTokenSize := (\<lambda>model text. Inl (New ''no tokenizer''))\<rparr>" ?p
            "''hi''" "()" "''''" "()" "()"]
      QueryText_early_exit_no_effects
        [of sink0 ?env ?p "''$CasibaseDryRun$hi''" "()" "''''" "()" "()"]
      QueryText_early_exit_no_effects
        [of sink0 ?env ?p "replicate 120 CHR ''a''" "()" "''''" "()" "()"]
      sink count dry over
    by blast
qed

text \<open>
  C8. A fragment that the loop does not discard is handed to the sink in one write of the
  bytes \<^verbatim>\<open>event: message\<close>, newline, \<^verbatim>\<open>data: \<close>, the fragment as received, two newlines;
  when the write succeeds the next call on the sink is the flush, and the loop goes on
  with the fragment appended to the answer; when it fails the call ends with its error.
  On a sink that accepts its writes and a stream that ends regularly, the calls added to
  the sink are therefore exactly one such write and one flush per forwarded fragment, in
  the order of arrival: for all the fragments outside leading mode; in leading mode for
  the empty fragments before the first fragment \<open>d'\<close> with a byte other than a newline,
  for \<open>d'\<close> and for all that follow. In a live call of \<^verbatim>\<open>QueryText\<close> the sink is the one
  this loop leaves, started in leading mode with an empty answer, and the answer that is
  accounted is the one it accumulates. Whatever the call and the sink, the calls on the
  sink are such pairs, followed at most by the write whose failure ended the call.
\<close>

theorem QueryText_pushes_events:
  "(Choices c = choice # others \<and> d = Content (Message choice) \<and>
    bytes = ''event: message\<newline>data: '' @ d @ ''\<newline>\<newline>'' \<longrightarrow>
      relay w lead acc (c # cs) e =
        (if lead \<and> d \<noteq> [] \<and> Count d CHR ''\<newline>'' = length d then relay w lead acc cs e
         else case write_err w (calls w) bytes of
                Some err \<Rightarrow> (Inl (Fail err), w\<lparr>calls := calls w @ [Write bytes]\<rparr>)
              | None \<Rightarrow>
                  relay (w\<lparr>calls := calls w @ [Write bytes, Flush]\<rparr>) (lead \<and> d = [])
                    (acc @ d) cs e)) \<and>
   (accepting w \<longrightarrow>
      relay w False acc (map chunk ds) EOF
        = (Inr (acc @ concat ds),
           w\<lparr>calls := calls w @
              concat (map (\<lambda>d. [Write (''event: message\<newline>data: '' @ d @ ''\<newline>\<newline>''), Flush])
                        ds)\<rparr>)) \<and>
   (accepting w \<and> list_all blank pre \<and> \<not> blank d' \<longrightarrow>
      relay w True acc (map chunk (pre @ d' # rest)) EOF
        = (Inr (acc @ concat (d' # rest)),
           w\<lparr>calls := calls w @
              concat (map (\<lambda>d. [Write (''event: message\<newline>data: '' @ d @ ''\<newline>\<newline>''), Flush])
                        (filter (\<lambda>f. f = []) pre @ d' # rest))\<rparr>)) \<and>
   (accepting w \<and> list_all blank pre \<longrightarrow>
      relay w True acc (map chunk pre) EOF
        = (Inr acc,
           w\<lparr>calls := calls w @
              concat (map (\<lambda>d. [Write (''event: message\<newline>data: '' @ d @ ''\<newline>\<newline>''), Flush])
                        (filter (\<lambda>f. f = []) pre))\<rparr>)) \<and>
   (DefaultConfig env (secretKey p) (siteName p) (siteUrl p) = Inr cfg \<and>
    flusher w \<and>
    GetTokenSize env (resolved_model p) question = Inr tokenCount \<and>
    \<not> HasPrefix question ''$CasibaseDryRun$'' \<and>
    \<not> getContextLength env (subType p) - tokenCount <s 0 \<and>
    CreateChatCompletionStream env
      (NewClientWithConfig (cfg\<lparr>HTTPClient := ProxyHttpClient\<rparr>))
      (live_request p question (getContextLength env (subType p) - tokenCount))
    = Inr respStream \<longrightarrow>
      fst (snd (QueryText env p question w history prompt knowledgeMessages agentInfo))
        = snd (relay w True '''' (completions respStream) (ending respStream)) \<and>
      fst (QueryText env p question w history prompt knowledgeMessages agentInfo)
        = (case fst (relay w True '''' (completions respStream) (ending respStream)) of
             Inl early \<Rightarrow> early
           | Inr response \<Rightarrow>
               (case getDefaultModelResult env (subType p) question response of
                  Inl err \<Rightarrow> Fail err
                | Inr modelResult \<Rightarrow> Success (snd (calculatePrice env p modelResult))))) \<and>
   (\<exists>fs tail.
      calls (fst (snd (QueryText env p question w history prompt knowledgeMessages agentInfo)))
        = calls w @
          concat (map (\<lambda>d. [Write (''event: message\<newline>data: '' @ d @ ''\<newline>\<newline>''), Flush]) fs)
          @ tail \<and>
      (tail = [] \<or>
       (\<exists>d err. tail = [Write (''event: message\<newline>data: '' @ d @ ''\<newline>\<newline>'')] \<and>
          fst (QueryText env p question w history prompt knowledgeMessages agentInfo)
            = Fail err)))"
proof (intro conjI impI)
  assume step: "Choices c = choice # others \<and> d = Content (Message choice) \<and>
    bytes = ''event: message\<newline>data: '' @ d @ ''\<newline>\<newline>''"
  then have c: "Choices c = choice # others" and dd: "d = Content (Message choice)"
    and b: "bytes = event_bytes d"
    by (simp_all add: event_bytes_def)
  have p1: "pushed [d] = [Write (event_bytes d), Flush]" by (simp add: pushed_def)
  show "relay w lead acc (c # cs) e =
        (if lead \<and> d \<noteq> [] \<and> Count d CHR ''\<newline>'' = length d then relay w lead acc cs e
         else case write_err w (calls w) bytes of
                Some err \<Rightarrow> (Inl (Fail err), w\<lparr>calls := calls w @ [Write bytes]\<rparr>)
              | None \<Rightarrow>
                  relay (w\<lparr>calls := calls w @ [Write bytes, Flush]\<rparr>) (lead \<and> d = [])
                    (acc @ d) cs e)"
    unfolding b
    by (simp only: relay_Cons [OF c dd, of w lead acc cs e] newlines_only_def p1)
next
  assume h: "accepting w"
  show "relay w False acc (map chunk ds) EOF
        = (Inr (acc @ concat ds),
           w\<lparr>calls := calls w @
              concat (map (\<lambda>d. [Write (''event: message\<newline>data: '' @ d @ ''\<newline>\<newline>''), Flush])
                        ds)\<rparr>)"
    by (rule relay_all_forwarded [OF h, unfolded pushed_bytes])
next
  assume "accepting w \<and> list_all blank pre \<and> \<not> blank d'"
  then have h: "accepting w" "list_all blank pre" "\<not> blank d'" by blast+
  show "relay w True acc (map chunk (pre @ d' # rest)) EOF
        = (Inr (acc @ concat (d' # rest)),
           w\<lparr>calls := calls w @
              concat (map (\<lambda>d. [Write (''event: message\<newline>data: '' @ d @ ''\<newline>\<newline>''), Flush])
                        (filter (\<lambda>f. f = []) pre @ d' # rest))\<rparr>)"
    by (rule relay_first_content [OF h, unfolded pushed_bytes])
next
  assume "accepting w \<and> list_all blank pre"
  then have h: "accepting w" "list_all blank pre" by blast+
  show "relay w True acc (map chunk pre) EOF
        = (Inr acc,
           w\<lparr>calls := calls w @
              concat (map (\<lambda>d. [Write (''event: message\<newline>data: '' @ d @ ''\<newline>\<newline>''), Flush])
                        (filter (\<lambda>f. f = []) pre))\<rparr>)"
    by (rule relay_all_blank [OF h, unfolded pushed_bytes])
next
  assume live: "DefaultConfig env (secretKey p) (siteName p) (siteUrl p) = Inr cfg \<and>
    flusher w \<and>
    GetTokenSize env (resolved_model p) question = Inr tokenCount \<and>
    \<not> HasPrefix question ''$CasibaseDryRun$'' \<and>
    \<not> getContextLength env (subType p) - tokenCount <s 0 \<and>
    CreateChatCompletionStream env
      (NewClientWithConfig (cfg\<lparr>HTTPClient := ProxyHttpClient\<rparr>))
      (live_request p question (getContextLength env (subType p) - tokenCount))
    = Inr respStream"
  note run = QueryText_runs_relay [of env p cfg w question tokenCount respStream
      history prompt knowledgeMessages agentInfo]
  show "fst (snd (QueryText env p question w history prompt knowledgeMessages agentInfo))
        = snd (relay w True '''' (completions respStream) (ending respStream))"
    using live run by blast
  show "fst (QueryText env p question w history prompt knowledgeMessages agentInfo)
        = (case fst (relay w True '''' (completions respStream) (ending respStream)) of
             Inl early \<Rightarrow> early
           | Inr response \<Rightarrow>
               (case getDefaultModelResult env (subType p) question response of
                  Inl err \<Rightarrow> Fail err
                | Inr modelResult \<Rightarrow> Success (snd (calculatePrice env p modelResult))))"
    using live run by blast
next
  show "\<exists>fs tail.
      calls (fst (snd (QueryText env p question w history prompt knowledgeMessages agentInfo)))
        = calls w @
          concat (map (\<lambda>d. [Write (''event: message\<newline>data: '' @ d @ ''\<newline>\<newline>''), Flush]) fs)
          @ tail \<and>
      (tail = [] \<or>
       (\<exists>d err. tail = [Write (''event: message\<newline>data: '' @ d @ ''\<newline>\<newline>'')] \<and>
          fst (QueryText env p question w history prompt knowledgeMessages agentInfo)
            = Fail err))"
    using calls_of_QueryText [of env p question w history prompt knowledgeMessages agentInfo]
    by (simp only: pushed_bytes event_bytes_def)
qed


theorem QueryText_pushes_events_witness:
  "accepting sink0 \<and> list_all blank [] \<and> \<not> blank ''a'' \<and> flusher sink0 \<and>
   \<not> HasPrefix ''hi'' ''$CasibaseDryRun$'' \<and>
   relay sink0 True '''' (map chunk [''a'', ''\<newline>'', ''b'']) EOF
     = (Inr ''a\<newline>b'',
        sink0\<lparr>calls := [Write ''event: message\<newline>data: a\<newline>\<newline>'', Flush,
                         Write ''event: message\<newline>data: \<newline>\<newline>\<newline>'', Flush,
                         Write ''event: message\<newline>data: b\<newline>\<newline>'', Flush]\<rparr>) \<and>
   fst (snd (QueryText (test_env (\<lambda>m. 4096)
                          \<lparr>completions = map chunk [''a'', ''\<newline>'', ''b''], ending = EOF\<rparr>)
               (demo_provider ''gpt-4o-mini'') ''hi'' sink0 () '''' () ()))
     = sink0\<lparr>calls := [Write ''event: message\<newline>data: a\<newline>\<newline>'', Flush,
                        Write ''event: message\<newline>data: \<newline>\<newline>\<newline>'', Flush,
                        Write ''event: message\<newline>data: b\<newline>\<newline>'', Flush]\<rparr>"
proof -
  let ?s = "\<lparr>completions = map chunk [''a'', ''\<newline>'', ''b''], ending = EOF\<rparr>"
  let ?env = "test_env (\<lambda>m. 4096) ?s"
  let ?p = "demo_provider ''gpt-4o-mini''"
  have a: "accepting sink0" by (simp add: accepting_def sink0_def)
  have b: "list_all blank []" "\<not> blank ''a''" by (simp_all add: blank_def Count_def)
  have fl: "flusher sink0" by (simp add: sink0_def)
  have live: "\<not> HasPrefix ''hi'' ''$CasibaseDryRun$''" by (simp add: HasPrefix_def)
  have cfg: "DefaultConfig ?env (secretKey ?p) (siteName ?p) (siteUrl ?p)
               = Inr \<lparr>HTTPClient = DefaultHttpClient\<rparr>"
    by (simp add: test_env_def)
  have tokens: "GetTokenSize ?env (resolved_model ?p) ''hi'' = Inr 2"
    by (simp add: test_env_def)
  have room: "\<not> getContextLength ?env (subType ?p) - 2 <s 0"
    by (simp add: test_env_def word_sless_alt)
  have stream: "CreateChatCompletionStream ?env
      (NewClientWithConfig (\<lparr>HTTPClient = DefaultHttpClient\<rparr>\<lparr>HTTPClient := ProxyHttpClient\<rparr>))
      (live_request ?p ''hi'' (getContextLength ?env (subType ?p) - 2)) = Inr ?s"
    by (simp add: test_env_def)
  note inst = QueryText_pushes_events
    [where w = sink0 and acc = "''''" and pre = "[]" and d' = "''a''"
       and rest = "[''\<newline>'', ''b'']" and env = ?env and p = ?p and question = "''hi''"
       and cfg = "\<lparr>HTTPClient = DefaultHttpClient\<rparr>" and tokenCount = 2
       and respStream = ?s and history = "()" and prompt = "''''"
       and knowledgeMessages = "()" and agentInfo = "()"]
  have loop: "relay sink0 True '''' (map chunk [''a'', ''\<newline>'', ''b'']) EOF
     = (Inr ''a\<newline>b'',
        sink0\<lparr>calls := [Write ''event: message\<newline>data: a\<newline>\<newline>'', Flush,
                         Write ''event: message\<newline>data: \<newline>\<newline>\<newline>'', Flush,
                         Write ''event: message\<newline>data: b\<newline>\<newline>'', Flush]\<rparr>)"
    using inst [THEN conjunct2, THEN conjunct2, THEN conjunct1] a b
    by (simp add: sink0_def)
  have whole: "fst (snd (QueryText ?env ?p ''hi'' sink0 () '''' () ()))
                 = snd (relay sink0 True '''' (completions ?s) (ending ?s))"
    using inst [THEN conjunct2, THEN conjunct2, THEN conjunct2, THEN conjunct2, THEN conjunct1]
      cfg fl tokens live room stream
    by blast
  show ?thesis
    using a b fl live loop whole by simp
qed

text \<open>
  C9. \<^verbatim>\<open>QueryText\<close> never reads \<^verbatim>\<open>history\<close>, \<^verbatim>\<open>prompt\<close>, \<^verbatim>\<open>knowledgeMessages\<close> and
  \<^verbatim>\<open>agentInfo\<close>: two calls that differ only in them end the same way, with the same calls
  on the sink and the same calls on the client, the request among them.
\<close>

theorem QueryText_ignores_context:
  "QueryText env p question w history prompt knowledgeMessages agentInfo
     = QueryText env p question w history' prompt' knowledgeMessages' agentInfo'"
  by (simp add: QueryText_def)

text \<open>
  C10. When the constructor of the client configuration (\<^verbatim>\<open>aimlapi.DefaultConfig\<close>) reports an
  error, \<^verbatim>\<open>QueryText\<close> panics with that error instead of returning it; it has then called
  neither the sink nor the client.
\<close>

theorem QueryText_config_error_panics:
  "DefaultConfig env (secretKey p) (siteName p) (siteUrl p) = Inl err \<Longrightarrow>
   QueryText env p question w history prompt knowledgeMessages agentInfo
     = (Panic (PanicError err), w, [])"
  by (simp add: QueryText_def getClient_def)

theorem QueryText_config_error_panics_witness:
  "DefaultConfig (test_env (\<lambda>m. 4096) \<lparr>completions = [], ending = EOF\<rparr>
                   \<lparr>DefaultConfig := (\<lambda>key name url. Inl (New ''no key''))\<rparr>)
     ''secret'' ''Casibase'' ''https://casibase.org'' = Inl (New ''no key'') \<and>
   QueryText (test_env (\<lambda>m. 4096) \<lparr>completions = [], ending = EOF\<rparr>
                \<lparr>DefaultConfig := (\<lambda>key name url. Inl (New ''no key''))\<rparr>)
     (demo_provider ''gpt-4o-mini'') ''hi'' sink0 () '''' () ()
   = (Panic (PanicError (New ''no key'')), sink0, [])"
  using QueryText_config_error_panics
    [of "test_env (\<lambda>m. 4096) \<lparr>completions = [], ending = EOF\<rparr>
               \<lparr>DefaultConfig := (\<lambda>key name url. Inl (New ''no key''))\<rparr>"
        "demo_provider ''gpt-4o-mini''" "New ''no key''" "''hi''" sink0
        "()" "''''" "()" "()"]
  by (simp add: test_env_def)

end
